theory Spec2Isabelle
  imports Complex_Main "HOL-Library.Sublist" "HOL-Library.AList"
begin

section \<open>Python values, errors and strings\<close>

text \<open>
  The development embeds \<^verbatim>\<open>MovieDataConsoleApplication.py\<close>: the search strategies, the
  lazily reloading \<^verbatim>\<open>MovieDataSource\<close> and the cached \<^verbatim>\<open>MovieManager.search\<close>.

  An exception is a value of type \<open>error\<close>; a computation that may raise returns
  \<open>error + 'a\<close> with \<open>Inl\<close> for the exception. \<open>OSError\<close> stands for what
  \<^verbatim>\<open>os.path.getmtime\<close> and \<^verbatim>\<open>open\<close> raise (missing or unreadable file), \<open>ReadError\<close>
  for what reading or decoding the opened file raises.
\<close>

datatype error = OSError | ReadError | KeyError string | ValueError | TypeError | AttributeError

text \<open>
  The values a query argument can be (\<^verbatim>\<open>query: Any\<close>). A float is modelled by the real
  number it denotes; Python compares an int with a float by exact value.
\<close>

datatype pyval = PNone | PStr string | PInt int | PFloat real

fun py_eq :: "pyval \<Rightarrow> pyval \<Rightarrow> bool" where
  "py_eq PNone PNone = True"
| "py_eq (PStr a) (PStr b) = (a = b)"
| "py_eq (PInt i) (PInt j) = (i = j)"
| "py_eq (PInt i) (PFloat r) = (real_of_int i = r)"
| "py_eq (PFloat r) (PInt i) = (r = real_of_int i)"
| "py_eq (PFloat r) (PFloat s) = (r = s)"
| "py_eq _ _ = False"

text \<open>
  Strings are ASCII text: \<^verbatim>\<open>str.lower()\<close> maps \<open>A\<close>..\<open>Z\<close> to \<open>a\<close>..\<open>z\<close> and leaves every
  other character alone.
\<close>

definition lower_char :: "char \<Rightarrow> char" where
  "lower_char c =
     (let n = (of_char c :: nat) in if 65 \<le> n \<and> n \<le> 90 then char_of (n + 32) else c)"

definition lower :: "string \<Rightarrow> string" where
  "lower s = map lower_char s"

text \<open>\<^verbatim>\<open>needle in haystack\<close> on strings: the needle occurs as a contiguous substring.\<close>

fun str_in :: "string \<Rightarrow> string \<Rightarrow> bool" where
  "str_in n [] = (n = [])"
| "str_in n (h # hs) = (prefix n (h # hs) \<or> str_in n hs)"

text \<open>\<^verbatim>\<open>x.lower()\<close> on an arbitrary value: only a \<^verbatim>\<open>str\<close> has the method.\<close>

fun lower_val :: "pyval \<Rightarrow> error + string" where
  "lower_val (PStr s) = Inr (lower s)"
| "lower_val _ = Inl AttributeError"

text \<open>
  \<^verbatim>\<open>str(n)\<close> of an int: its decimal numeral, with a minus sign when negative.
\<close>

fun dec_nat :: "nat \<Rightarrow> string" where
  "dec_nat n = (if n < 10 then [char_of (48 + n)] else dec_nat (n div 10) @ [char_of (48 + n mod 10)])"

declare dec_nat.simps [simp del]

definition py_str :: "int \<Rightarrow> string" where
  "py_str i = (if i < 0 then CHR ''-'' # dec_nat (nat (- i)) else dec_nat (nat i))"

section \<open>Movies and search strategies\<close>

datatype SearchCriteria = TITLE | YEAR | DIRECTOR

text \<open>
  \<^verbatim>\<open>Movie\<close> is a frozen dataclass. The dataclass does not check its annotations, and
  \<^verbatim>\<open>csv.DictReader\<close> hands out \<^verbatim>\<open>None\<close> for a cell that a short row lacks, so \<open>title\<close>
  and \<open>director\<close> hold a string or \<^verbatim>\<open>None\<close>; \<open>release_year\<close> is always the result of
  \<^verbatim>\<open>int(...)\<close>.
\<close>

record Movie =
  title :: "string option"
  release_year :: int
  director :: "string option"

text \<open>\<^verbatim>\<open>field.lower()\<close> on a stored field: \<^verbatim>\<open>None\<close> has no such method.\<close>

fun lower_field :: "string option \<Rightarrow> error + string" where
  "lower_field (Some s) = Inr (lower s)"
| "lower_field None = Inl AttributeError"

text \<open>
  A list comprehension \<^verbatim>\<open>[x for x in xs if p(x)]\<close> whose test may raise: the elements are
  tested from left to right and the first exception ends the comprehension.
\<close>

fun filter_e :: "('a \<Rightarrow> error + bool) \<Rightarrow> 'a list \<Rightarrow> error + 'a list" where
  "filter_e p [] = Inr []"
| "filter_e p (x # xs) =
     (case p x of
        Inl e \<Rightarrow> Inl e
      | Inr b \<Rightarrow>
          (case filter_e p xs of
             Inl e \<Rightarrow> Inl e
           | Inr ys \<Rightarrow> Inr (if b then x # ys else ys)))"

definition field_contains :: "string \<Rightarrow> string option \<Rightarrow> error + bool" where
  "field_contains q f = (case lower_field f of Inl e \<Rightarrow> Inl e | Inr t \<Rightarrow> Inr (str_in q t))"

definition TitleSearchStrategy_search :: "Movie list \<Rightarrow> pyval \<Rightarrow> error + Movie list" where
  "TitleSearchStrategy_search movies query =
     (case lower_val query of
        Inl e \<Rightarrow> Inl e
      | Inr q \<Rightarrow> filter_e (\<lambda>movie. field_contains q (title movie)) movies)"

definition YearSearchStrategy_search :: "Movie list \<Rightarrow> pyval \<Rightarrow> error + Movie list" where
  "YearSearchStrategy_search movies query =
     Inr (filter (\<lambda>movie. py_eq (PInt (release_year movie)) query) movies)"

definition DirectorSearchStrategy_search :: "Movie list \<Rightarrow> pyval \<Rightarrow> error + Movie list" where
  "DirectorSearchStrategy_search movies query =
     (case lower_val query of
        Inl e \<Rightarrow> Inl e
      | Inr q \<Rightarrow> filter_e (\<lambda>movie. field_contains q (director movie)) movies)"

section \<open>The source file and \<^verbatim>\<open>csv.DictReader\<close>\<close>

text \<open>
  What one call observes of the file named by \<^verbatim>\<open>self.filename\<close>: the result of
  \<^verbatim>\<open>os.path.getmtime\<close>, and the result of \<^verbatim>\<open>open\<close> followed by \<^verbatim>\<open>csv.reader\<close>, which is
  either the exception of \<^verbatim>\<open>open\<close> or the rows the reader yields (each a list of cells, a
  blank line being the empty list, the header line first) and the exception that ends
  the reading early, if any.
\<close>

record source_file =
  getmtime :: "error + real"
  opened :: "error + (string list list \<times> error option)"

text \<open>
  One row of \<^verbatim>\<open>csv.DictReader\<close>: \<^verbatim>\<open>dict(zip(fieldnames, row))\<close>, and for a row shorter than
  the header every remaining field name is bound to \<^verbatim>\<open>restval\<close>, which is \<^verbatim>\<open>None\<close>. The
  dictionary is an association list in insertion order. (The surplus cells of a long
  row go under the key \<^verbatim>\<open>None\<close>, which no lookup by field name reaches; the entry is
  left out.)
\<close>

definition DictReader_row :: "string list \<Rightarrow> string list \<Rightarrow> (string \<times> string option) list" where
  "DictReader_row fieldnames row =
     (let d = fold (\<lambda>(k, v). AList.update k (Some v)) (zip fieldnames row) [];
          lf = length fieldnames;
          lr = length row
      in if lf > lr then fold (\<lambda>key. AList.update key None) (drop lr fieldnames) d else d)"

text \<open>\<^verbatim>\<open>d[k]\<close> on a plain dictionary.\<close>

definition getitem :: "(string \<times> 'v) list \<Rightarrow> string \<Rightarrow> error + 'v" where
  "getitem d k = (case map_of d k of None \<Rightarrow> Inl (KeyError k) | Some v \<Rightarrow> Inr v)"

text \<open>
  \<^verbatim>\<open>int(x)\<close> on a cell. The parameter \<open>int_of\<close> is the built-in conversion of a string,
  \<open>None\<close> where it raises \<^verbatim>\<open>ValueError\<close>; \<^verbatim>\<open>int(None)\<close> raises \<^verbatim>\<open>TypeError\<close>.
\<close>

definition py_int :: "(string \<Rightarrow> int option) \<Rightarrow> string option \<Rightarrow> error + int" where
  "py_int int_of x =
     (case x of
        None \<Rightarrow> Inl TypeError
      | Some s \<Rightarrow> (case int_of s of None \<Rightarrow> Inl ValueError | Some n \<Rightarrow> Inr n))"

text \<open>
  The constructor call of the loop body; the keyword arguments are evaluated in the
  order they are written.
\<close>

definition row_movie :: "(string \<Rightarrow> int option) \<Rightarrow> (string \<times> string option) list \<Rightarrow> error + Movie" where
  "row_movie int_of row =
     (case getitem row ''title'' of
        Inl e \<Rightarrow> Inl e
      | Inr t \<Rightarrow>
     (case getitem row ''release_year'' of
        Inl e \<Rightarrow> Inl e
      | Inr y \<Rightarrow>
     (case py_int int_of y of
        Inl e \<Rightarrow> Inl e
      | Inr n \<Rightarrow>
     (case getitem row ''director'' of
        Inl e \<Rightarrow> Inl e
      | Inr d \<Rightarrow> Inr \<lparr>title = t, release_year = n, director = d\<rparr>))))"

text \<open>
  The loop \<^verbatim>\<open>for row in reader: ... movies.append(movie)\<close>. The reader skips blank rows;
  \<open>failure\<close> is the exception that ends the reading, raised once the rows before it
  have been consumed.
\<close>

fun read_rows ::
  "(string \<Rightarrow> int option) \<Rightarrow> string list \<Rightarrow> string list list \<Rightarrow> error option \<Rightarrow> Movie list
     \<Rightarrow> error + Movie list" where
  "read_rows int_of fieldnames [] failure movies =
     (case failure of None \<Rightarrow> Inr movies | Some e \<Rightarrow> Inl e)"
| "read_rows int_of fieldnames (row # rest) failure movies =
     (if row = [] then read_rows int_of fieldnames rest failure movies
      else (case row_movie int_of (DictReader_row fieldnames row) of
              Inl e \<Rightarrow> Inl e
            | Inr movie \<Rightarrow> read_rows int_of fieldnames rest failure (movies @ [movie])))"

text \<open>The first row the reader yields is the header, whatever it holds.\<close>

definition read_movies ::
  "(string \<Rightarrow> int option) \<Rightarrow> string list list \<times> error option \<Rightarrow> error + Movie list" where
  "read_movies int_of f =
     (case fst f of
        [] \<Rightarrow> read_rows int_of [] [] (snd f) []
      | header # rest \<Rightarrow> read_rows int_of header rest (snd f) [])"

section \<open>\<^verbatim>\<open>MovieDataSource\<close>\<close>

text \<open>
  \<^verbatim>\<open>_index\<close> is a \<^verbatim>\<open>defaultdict\<close> of \<^verbatim>\<open>defaultdict(list)\<close>: reading a missing key creates
  it. Both levels are association lists in insertion order.
\<close>

type_synonym index = "(string \<times> (string \<times> Movie list) list) list"

record MovieDataSource =
  priv_movies :: "Movie list option"
  priv_last_modified :: real
  priv_index :: index

definition MovieDataSource_init :: MovieDataSource where
  "MovieDataSource_init = \<lparr>priv_movies = None, priv_last_modified = 0, priv_index = []\<rparr>"

text \<open>\<^verbatim>\<open>self._index[field][key].append(movie)\<close>\<close>

definition index_append :: "string \<Rightarrow> string \<Rightarrow> Movie \<Rightarrow> index \<Rightarrow> index" where
  "index_append field key movie idx =
     (let inner = (case map_of idx field of None \<Rightarrow> [] | Some d \<Rightarrow> d);
          bucket = (case map_of inner key of None \<Rightarrow> [] | Some b \<Rightarrow> b)
      in AList.update field (AList.update key (bucket @ [movie]) inner) idx)"

text \<open>The second loop of \<^verbatim>\<open>_build_index\<close>; \<^verbatim>\<open>movie.director.lower()\<close> may raise.\<close>

fun index_directors :: "Movie list \<Rightarrow> index \<Rightarrow> error option \<times> index" where
  "index_directors [] idx = (None, idx)"
| "index_directors (movie # rest) idx =
     (case lower_field (director movie) of
        Inl e \<Rightarrow> (Some e, idx)
      | Inr key \<Rightarrow> index_directors rest (index_append ''director'' key movie idx))"

text \<open>
  A method that returns nothing yields the exception it raised, if any, and the object
  as the call left it.
\<close>

definition build_index :: "MovieDataSource \<Rightarrow> error option \<times> MovieDataSource" where
  "build_index self =
     (case priv_movies self of
        None \<Rightarrow> (Some TypeError, self\<lparr>priv_index := []\<rparr>)
      | Some movies \<Rightarrow>
          (let by_year = fold (\<lambda>movie. index_append ''year'' (py_str (release_year movie)) movie) movies [];
               r = index_directors movies by_year
           in (fst r, self\<lparr>priv_index := snd r\<rparr>)))"

definition load_movies ::
  "(string \<Rightarrow> int option) \<Rightarrow> source_file \<Rightarrow> MovieDataSource \<Rightarrow> error option \<times> MovieDataSource" where
  "load_movies int_of src self =
     (case opened src of
        Inl e \<Rightarrow> (Some e, self)
      | Inr f \<Rightarrow>
          (case read_movies int_of f of
             Inl e \<Rightarrow> (Some e, self)
           | Inr movies \<Rightarrow> build_index (self\<lparr>priv_movies := Some movies\<rparr>)))"

text \<open>
  The property \<^verbatim>\<open>movies\<close>. It returns \<^verbatim>\<open>self._movies\<close>, of type
  \<^verbatim>\<open>Optional[List[Movie]]\<close>, or the exception raised, and the object as the call left it.
\<close>

definition MovieDataSource_movies ::
  "(string \<Rightarrow> int option) \<Rightarrow> source_file \<Rightarrow> MovieDataSource
     \<Rightarrow> (error + Movie list option) \<times> MovieDataSource" where
  "MovieDataSource_movies int_of src self =
     (case getmtime src of
        Inl e \<Rightarrow> (Inl e, self)
      | Inr current_mtime \<Rightarrow>
          (if priv_movies self = None \<or> current_mtime > priv_last_modified self
           then (case load_movies int_of src self of
                   (Some e, self') \<Rightarrow> (Inl e, self')
                 | (None, self') \<Rightarrow>
                     (Inr (priv_movies self'), self'\<lparr>priv_last_modified := current_mtime\<rparr>))
           else (Inr (priv_movies self), self)))"

section \<open>\<^verbatim>\<open>MovieManager\<close>\<close>

text \<open>
  \<^verbatim>\<open>search\<close> is wrapped by \<^verbatim>\<open>functools.lru_cache(maxsize=128)\<close>. The cache is a list of
  (key, result) entries, most recently used first. A key is the argument tuple as
  passed; two keys are the same entry when their components are equal in Python's
  sense. One manager is modelled, so \<^verbatim>\<open>self\<close> is left out of the key.
\<close>

type_synonym cache = "((SearchCriteria \<times> pyval) \<times> Movie list) list"

record MovieManager =
  data_source :: MovieDataSource
  search_cache :: cache

definition MovieManager_init :: MovieManager where
  "MovieManager_init = \<lparr>data_source = MovieDataSource_init, search_cache = []\<rparr>"

definition maxsize :: nat where
  "maxsize = 128"

definition key_eq :: "SearchCriteria \<times> pyval \<Rightarrow> SearchCriteria \<times> pyval \<Rightarrow> bool" where
  "key_eq a b = (fst a = fst b \<and> py_eq (snd a) (snd b))"

definition cache_find :: "SearchCriteria \<times> pyval \<Rightarrow> cache \<Rightarrow> ((SearchCriteria \<times> pyval) \<times> Movie list) option" where
  "cache_find key c = find (\<lambda>entry. key_eq (fst entry) key) c"

fun search_strategies :: "SearchCriteria \<Rightarrow> Movie list \<Rightarrow> pyval \<Rightarrow> error + Movie list" where
  "search_strategies TITLE = TitleSearchStrategy_search"
| "search_strategies YEAR = YearSearchStrategy_search"
| "search_strategies DIRECTOR = DirectorSearchStrategy_search"

text \<open>
  \<^verbatim>\<open>strategy.search(movies, query)\<close> on the value the property returned. On \<^verbatim>\<open>None\<close> the
  comprehension raises \<^verbatim>\<open>TypeError\<close>, after \<^verbatim>\<open>query.lower()\<close> where the strategy calls it.
\<close>

definition strategy_search :: "SearchCriteria \<Rightarrow> Movie list option \<Rightarrow> pyval \<Rightarrow> error + Movie list" where
  "strategy_search criteria movies query =
     (case movies of
        Some ms \<Rightarrow> search_strategies criteria ms query
      | None \<Rightarrow>
          (case criteria of
             YEAR \<Rightarrow> Inl TypeError
           | _ \<Rightarrow> (case lower_val query of Inl e \<Rightarrow> Inl e | Inr q \<Rightarrow> Inl TypeError)))"

text \<open>The body of \<^verbatim>\<open>search\<close>, run on a cache miss.\<close>

definition search_body ::
  "(string \<Rightarrow> int option) \<Rightarrow> source_file \<Rightarrow> MovieManager \<Rightarrow> SearchCriteria \<Rightarrow> pyval
     \<Rightarrow> (error + Movie list) \<times> MovieManager" where
  "search_body int_of src self criteria query =
     (let r = MovieDataSource_movies int_of src (data_source self);
          self' = self\<lparr>data_source := snd r\<rparr>
      in (case fst r of
            Inl e \<Rightarrow> (Inl e, self')
          | Inr ms \<Rightarrow> (strategy_search criteria ms query, self')))"

text \<open>
  The cached \<^verbatim>\<open>search\<close>: a hit returns the stored result and moves the entry to the
  front; a miss runs the body, and stores the result unless the body raised, dropping
  the least recently used entry when the cache is full.
\<close>

definition search ::
  "(string \<Rightarrow> int option) \<Rightarrow> source_file \<Rightarrow> MovieManager \<Rightarrow> SearchCriteria \<Rightarrow> pyval
     \<Rightarrow> (error + Movie list) \<times> MovieManager" where
  "search int_of src self criteria query =
     (case cache_find (criteria, query) (search_cache self) of
        Some entry \<Rightarrow>
          (Inr (snd entry), self\<lparr>search_cache := entry # remove1 entry (search_cache self)\<rparr>)
      | None \<Rightarrow>
          (case search_body int_of src self criteria query of
             (Inl e, self') \<Rightarrow> (Inl e, self')
           | (Inr result, self') \<Rightarrow>
               (Inr result,
                self'\<lparr>search_cache := take maxsize (((criteria, query), result) # search_cache self')\<rparr>)))"

section \<open>Case-insensitive matching and index buckets\<close>




text \<open>
  The bucket the index holds under a field and a key: what reading
  \<^verbatim>\<open>self._index[field][key]\<close> gives, the empty list where there is no entry.
\<close>

definition index_get :: "index \<Rightarrow> string \<Rightarrow> string \<Rightarrow> Movie list" where
  "index_get idx field key =
     (case map_of idx field of
        None \<Rightarrow> []
      | Some d \<Rightarrow> (case map_of d key of None \<Rightarrow> [] | Some b \<Rightarrow> b))"

section \<open>Example inputs\<close>

text \<open>
  A parser for the examples: it agrees with \<^verbatim>\<open>int\<close> on the non-empty strings of ASCII
  digits and rejects every other string.
\<close>

definition int_of_decimal :: "string \<Rightarrow> int option" where
  "int_of_decimal s =
     (if s \<noteq> [] \<and> list_all (\<lambda>c. 48 \<le> (of_char c :: nat) \<and> (of_char c :: nat) \<le> 57) s
      then Some (int (foldl (\<lambda>a c. 10 * a + (of_char c - 48)) 0 s))
      else None)"

definition Inception :: Movie where
  "Inception = \<lparr>title = Some ''Inception'', release_year = 2010, director = Some ''Nolan''\<rparr>"

definition Interstellar :: Movie where
  "Interstellar = \<lparr>title = Some ''Interstellar'', release_year = 2014, director = Some ''Nolan''\<rparr>"

text \<open>The two-row file of the specification's example, last modified at time 100.\<close>

definition two_movies :: source_file where
  "two_movies =
     \<lparr>getmtime = Inr 100,
      opened = Inr ([[''title'', ''release_year'', ''director''],
                     [''Inception'', ''2010'', ''Nolan''],
                     [''Interstellar'', ''2014'', ''Nolan'']], None)\<rparr>"

text \<open>The same file rewritten at time 200 with its second row removed.\<close>

definition one_movie :: source_file where
  "one_movie =
     \<lparr>getmtime = Inr 200,
      opened = Inr ([[''title'', ''release_year'', ''director''],
                     [''Inception'', ''2010'', ''Nolan'']], None)\<rparr>"

text \<open>The manager after its first search, for the director \<^verbatim>\<open>nolan\<close>, on the two-row file.\<close>

definition after_nolan :: MovieManager where
  "after_nolan = snd (search int_of_decimal two_movies MovieManager_init DIRECTOR (PStr ''nolan''))"

text \<open>
  The two-row file rewritten at time 200 with the director cell of its second row
  missing.
\<close>

definition short_row :: source_file where
  "short_row =
     \<lparr>getmtime = Inr 200,
      opened = Inr ([[''title'', ''release_year'', ''director''],
                     [''Inception'', ''2010'', ''Nolan''],
                     [''Interstellar'', ''2014'']], None)\<rparr>"

text \<open>The data source after its first access, on the two-row file.\<close>

definition loaded :: MovieDataSource where
  "loaded = snd (MovieDataSource_movies int_of_decimal two_movies MovieDataSource_init)"

section \<open>The result cache\<close>

lemma py_eq_refl: "py_eq q q"
  by (cases q) simp_all

lemma key_eq_refl: "key_eq k k"
  by (simp add: key_eq_def py_eq_refl)

lemma cache_find_key: "cache_find key c = Some entry \<Longrightarrow> key_eq (fst entry) key"
  unfolding cache_find_def by (induction c) (auto split: if_splits)

lemma search_hit:
  assumes "cache_find (criteria, query) (search_cache self) = Some entry"
  shows "search int_of src self criteria query =
           (Inr (snd entry), self\<lparr>search_cache := entry # remove1 entry (search_cache self)\<rparr>)"
  using assms by (simp add: search_def)

lemma search_miss:
  assumes "cache_find (criteria, query) (search_cache self) = None"
  shows "search int_of src self criteria query =
           (case search_body int_of src self criteria query of
              (Inl e, self') \<Rightarrow> (Inl e, self')
            | (Inr result, self') \<Rightarrow>
                (Inr result,
                 self'\<lparr>search_cache := take maxsize (((criteria, query), result) # search_cache self')\<rparr>))"
  using assms by (simp add: search_def)

text \<open>The body of a search, and the reload it may trigger, leave the cache alone.\<close>

lemma search_body_cache:
  "search_cache (snd (search_body int_of src self criteria query)) = search_cache self"
  by (simp add: search_body_def Let_def split: sum.splits)

text \<open>A search that returns leaves its result in the cache, under its own key.\<close>

lemma search_result_cached:
  assumes "search int_of src self criteria query = (Inr r, self')"
  shows "\<exists>entry. cache_find (criteria, query) (search_cache self') = Some entry \<and> snd entry = r"
proof (cases "cache_find (criteria, query) (search_cache self)")
  case None
  from assms show ?thesis
    unfolding search_miss [OF None]
    by (auto simp: cache_find_def maxsize_def key_eq_refl split: prod.splits sum.splits)
next
  case (Some entry)
  have "key_eq (fst entry) (criteria, query)"
    using Some by (rule cache_find_key)
  with assms show ?thesis
    unfolding search_hit [OF Some]
    by (cases entry) (auto simp: cache_find_def)
qed

text \<open>A string argument is found in the cache only under the very same string.\<close>

lemma cache_find_str:
  "(criteria, PStr q) \<notin> fst ` set c \<Longrightarrow> cache_find (criteria, PStr q) c = None"
  unfolding cache_find_def
proof (induction c)
  case Nil
  then show ?case by simp
next
  case (Cons e c)
  obtain k a v where e: "e = ((k, a), v)"
    by (metis prod.exhaust)
  from Cons show ?case
    by (cases a) (auto simp: e key_eq_def)
qed

lemma after_nolan_cache:
  "search_cache after_nolan = [((DIRECTOR, PStr ''nolan''), [Inception, Interstellar])]"
  by code_simp

lemma after_nolan_search:
  "search int_of_decimal two_movies MovieManager_init DIRECTOR (PStr ''nolan'')
     = (Inr [Inception, Interstellar], after_nolan)"
  by code_simp

text \<open>
  C3, as the code has it: the cache key is the pair of the criteria and the argument as
  it was passed; nothing lower-cases it. A string argument hits only an entry stored
  under the same string, so a search whose argument is not among the cached keys runs
  the body on the data source, whether or not the cache holds the same argument in
  another letter case.
\<close>

theorem search_key_is_argument_as_passed:
  assumes "(criteria, PStr q) \<notin> fst ` set (search_cache self)"
  shows "search int_of src self criteria (PStr q) =
           (case search_body int_of src self criteria (PStr q) of
              (Inl e, self') \<Rightarrow> (Inl e, self')
            | (Inr result, self') \<Rightarrow>
                (Inr result,
                 self'\<lparr>search_cache := take maxsize (((criteria, PStr q), result) # search_cache self')\<rparr>))"
  by (rule search_miss) (rule cache_find_str [OF assms])

theorem search_key_is_argument_as_passed_witness:
  "(DIRECTOR, PStr ''NOLAN'') \<notin> fst ` set (search_cache after_nolan)
   \<and> lower ''NOLAN'' = lower ''nolan''
   \<and> search_cache (snd (search int_of_decimal one_movie after_nolan DIRECTOR (PStr ''NOLAN'')))
       = [((DIRECTOR, PStr ''NOLAN''), [Inception]),
          ((DIRECTOR, PStr ''nolan''), [Inception, Interstellar])]"
proof -
  have h: "(DIRECTOR, PStr ''NOLAN'') \<notin> fst ` set (search_cache after_nolan)"
    by (simp add: after_nolan_cache)
  have l: "lower ''NOLAN'' = lower ''nolan''"
    by code_simp
  have b: "fst (search_body int_of_decimal one_movie after_nolan DIRECTOR (PStr ''NOLAN''))
             = Inr [Inception]"
    by code_simp
  have c: "search_cache (snd (search_body int_of_decimal one_movie after_nolan DIRECTOR (PStr ''NOLAN'')))
             = search_cache after_nolan"
    by (rule search_body_cache)
  show ?thesis
    using search_key_is_argument_as_passed [OF h, of int_of_decimal one_movie] h l
    by (simp add: case_prod_beta b c after_nolan_cache maxsize_def)
qed

text \<open>
  C3, as stated, fails: after a search for the director \<^verbatim>\<open>nolan\<close> the cache holds that
  result, the file is rewritten, and the search for \<^verbatim>\<open>NOLAN\<close> is computed on the reloaded
  file while the search for \<^verbatim>\<open>nolan\<close> is answered from the cache.
\<close>

theorem search_case_variant_misses_cache:
  "fst (search int_of_decimal one_movie after_nolan DIRECTOR (PStr ''NOLAN'')) = Inr [Inception]
   \<and> fst (search int_of_decimal one_movie after_nolan DIRECTOR (PStr ''nolan''))
       = Inr [Inception, Interstellar]"
  by code_simp

text \<open>
  C4: on a cache hit \<^verbatim>\<open>search\<close> returns the cached result whatever the file is now, and
  leaves the data source as it was; a search that has returned is a hit when it is
  repeated, so the repetition returns the same result without reaching the data
  source. Nothing removes an entry when the file is reloaded: a miss, whatever it
  reloads, puts its own entry in front of the others and drops only what exceeds the
  capacity.
\<close>

theorem search_hit_leaves_data_source:
  "(cache_find (criteria, query) (search_cache self) = Some entry \<longrightarrow>
      fst (search int_of src self criteria query) = Inr (snd entry)
      \<and> data_source (snd (search int_of src self criteria query)) = data_source self)
   \<and> (search int_of src self criteria query = (Inr r, self') \<longrightarrow>
      fst (search int_of src' self' criteria query) = Inr r
      \<and> data_source (snd (search int_of src' self' criteria query)) = data_source self')
   \<and> (cache_find (criteria, query) (search_cache self) = None \<longrightarrow>
      search int_of src self criteria query = (Inr r, self') \<longrightarrow>
      search_cache self' = take maxsize (((criteria, query), r) # search_cache self))"
proof (intro conjI impI)
  assume h: "cache_find (criteria, query) (search_cache self) = Some entry"
  show "fst (search int_of src self criteria query) = Inr (snd entry)"
    by (simp add: search_hit [OF h])
  show "data_source (snd (search int_of src self criteria query)) = data_source self"
    by (simp add: search_hit [OF h])
next
  assume "search int_of src self criteria query = (Inr r, self')"
  then obtain entry where e:
    "cache_find (criteria, query) (search_cache self') = Some entry" "snd entry = r"
    using search_result_cached by blast
  show "fst (search int_of src' self' criteria query) = Inr r"
    by (simp add: search_hit [OF e(1)] e(2))
  show "data_source (snd (search int_of src' self' criteria query)) = data_source self'"
    by (simp add: search_hit [OF e(1)])
next
  assume "cache_find (criteria, query) (search_cache self) = None"
    and "search int_of src self criteria query = (Inr r, self')"
  then show "search_cache self' = take maxsize (((criteria, query), r) # search_cache self)"
    by (auto simp: search_miss search_body_cache case_prod_beta split: sum.splits)
qed

text \<open>
  The witness repeats the search for \<^verbatim>\<open>nolan\<close> after the file has lost a row and a
  search by year has reloaded it: the answer is still the cached one.
\<close>

theorem search_hit_leaves_data_source_witness:
  "search int_of_decimal two_movies MovieManager_init DIRECTOR (PStr ''nolan'')
     = (Inr [Inception, Interstellar], after_nolan)
   \<and> fst (search int_of_decimal one_movie after_nolan DIRECTOR (PStr ''nolan''))
       = Inr [Inception, Interstellar]
   \<and> data_source (snd (search int_of_decimal one_movie after_nolan DIRECTOR (PStr ''nolan'')))
       = data_source after_nolan
   \<and> priv_movies (data_source (snd (search int_of_decimal one_movie after_nolan YEAR (PInt 2010))))
       = Some [Inception]
   \<and> fst (search int_of_decimal one_movie
             (snd (search int_of_decimal one_movie after_nolan YEAR (PInt 2010)))
             DIRECTOR (PStr ''nolan''))
       = Inr [Inception, Interstellar]"
proof -
  have s: "priv_movies (data_source (snd (search int_of_decimal one_movie after_nolan YEAR (PInt 2010))))
             = Some [Inception]
           \<and> fst (search int_of_decimal one_movie
                    (snd (search int_of_decimal one_movie after_nolan YEAR (PInt 2010)))
                    DIRECTOR (PStr ''nolan''))
               = Inr [Inception, Interstellar]"
    by code_simp
  show ?thesis
    using search_hit_leaves_data_source
            [where int_of = int_of_decimal and src = two_movies and self = MovieManager_init
               and criteria = DIRECTOR and query = "PStr ''nolan''" and self' = after_nolan
               and r = "[Inception, Interstellar]" and src' = one_movie]
          after_nolan_search s
    by simp
qed

section \<open>The year strategy\<close>

text \<open>
  C7: the year strategy keeps exactly the records whose \<open>release_year\<close> equals the
  integer argument, so it returns the empty list when none does; and on the two-row
  file the three searches of the example return both records in file order, only
  \<open>Inception\<close>, and nothing.
\<close>

theorem year_search_exact_and_examples:
  assumes "int_of ''2010'' = Some 2010" and "int_of ''2014'' = Some 2014"
  shows "YearSearchStrategy_search ms (PInt y) = Inr (filter (\<lambda>movie. release_year movie = y) ms)
   \<and> fst (search int_of two_movies MovieManager_init DIRECTOR (PStr ''nolan''))
       = Inr [Inception, Interstellar]
   \<and> fst (search int_of two_movies MovieManager_init YEAR (PInt 2010)) = Inr [Inception]
   \<and> fst (search int_of two_movies MovieManager_init TITLE (PStr ''xyz'')) = Inr []"
proof (intro conjI)
  note defs = search_def search_body_def MovieManager_init_def cache_find_def strategy_search_def
    MovieDataSource_movies_def two_movies_def MovieDataSource_init_def load_movies_def
    read_movies_def DictReader_row_def row_movie_def getitem_def py_int_def build_index_def
    Inception_def Interstellar_def field_contains_def
  have l: "lower ''Nolan'' = ''nolan''" "lower ''nolan'' = ''nolan''" "lower ''xyz'' = ''xyz''"
    "lower ''Inception'' = ''inception''" "lower ''Interstellar'' = ''interstellar''"
    by code_simp+
  have i: "str_in ''nolan'' ''nolan''" "\<not> str_in ''xyz'' ''inception''"
    "\<not> str_in ''xyz'' ''interstellar''"
    by code_simp+
  show "YearSearchStrategy_search ms (PInt y) = Inr (filter (\<lambda>movie. release_year movie = y) ms)"
    by (simp add: YearSearchStrategy_search_def)
  show "fst (search int_of two_movies MovieManager_init DIRECTOR (PStr ''nolan''))
          = Inr [Inception, Interstellar]"
    using assms by (simp add: defs DirectorSearchStrategy_search_def l i)
  show "fst (search int_of two_movies MovieManager_init YEAR (PInt 2010)) = Inr [Inception]"
    using assms by (simp add: defs YearSearchStrategy_search_def)
  show "fst (search int_of two_movies MovieManager_init TITLE (PStr ''xyz'')) = Inr []"
    using assms by (simp add: defs TitleSearchStrategy_search_def l i)
qed

theorem year_search_exact_and_examples_witness:
  "int_of_decimal ''2010'' = Some 2010 \<and> int_of_decimal ''2014'' = Some 2014
   \<and> YearSearchStrategy_search [Inception, Interstellar] (PInt 1999) = Inr []
   \<and> fst (search int_of_decimal two_movies MovieManager_init DIRECTOR (PStr ''nolan''))
       = Inr [Inception, Interstellar]
   \<and> fst (search int_of_decimal two_movies MovieManager_init YEAR (PInt 2010)) = Inr [Inception]
   \<and> fst (search int_of_decimal two_movies MovieManager_init TITLE (PStr ''xyz'')) = Inr []"
proof -
  have a: "int_of_decimal ''2010'' = Some 2010" and b: "int_of_decimal ''2014'' = Some 2014"
    by code_simp+
  show ?thesis
    using year_search_exact_and_examples [OF a b, of "[Inception, Interstellar]" 1999] a b
    by (simp add: Inception_def Interstellar_def)
qed

text \<open>
  C10, as the code has it: a string argument, or \<^verbatim>\<open>None\<close>, equals no integer, so the
  year strategy returns the empty list and raises nothing; a float argument is compared
  by value, and matches the records whose year it denotes.
\<close>

theorem year_search_non_integer_argument:
  "YearSearchStrategy_search ms (PStr s) = Inr []
   \<and> YearSearchStrategy_search ms PNone = Inr []
   \<and> YearSearchStrategy_search ms (PFloat r)
       = Inr (filter (\<lambda>movie. real_of_int (release_year movie) = r) ms)"
  by (simp add: YearSearchStrategy_search_def)

text \<open>
  C10, as stated, fails for the float \<^verbatim>\<open>2010.0\<close>, which is not an integer and matches
  the record of 2010.
\<close>

theorem year_search_float_matches:
  "YearSearchStrategy_search [Inception] (PFloat 2010) = Inr [Inception]"
  by (simp add: YearSearchStrategy_search_def Inception_def)

section \<open>Loading\<close>

lemma index_directors_ok:
  "fst (index_directors ms idx) = None \<longleftrightarrow> (\<forall>m\<in>set ms. director m \<noteq> None)"
proof (induction ms arbitrary: idx)
  case Nil
  then show ?case by simp
next
  case (Cons m ms)
  then show ?case by (cases "director m") simp_all
qed

lemma build_index_frame:
  "priv_movies (snd (build_index self)) = priv_movies self"
  "priv_last_modified (snd (build_index self)) = priv_last_modified self"
  by (simp_all add: build_index_def Let_def split: option.splits)

lemma build_index_ok:
  "fst (build_index self) = None \<longleftrightarrow>
     (\<exists>ms. priv_movies self = Some ms \<and> (\<forall>m\<in>set ms. director m \<noteq> None))"
  by (simp add: build_index_def Let_def index_directors_ok split: option.splits)

lemma load_movies_ok:
  assumes "load_movies int_of src self = (None, s')"
  shows "\<exists>f ms. opened src = Inr f \<and> read_movies int_of f = Inr ms \<and> priv_movies s' = Some ms
           \<and> (\<forall>m\<in>set ms. director m \<noteq> None) \<and> priv_last_modified s' = priv_last_modified self"
proof (cases "opened src")
  case (Inl e)
  with assms show ?thesis by (simp add: load_movies_def)
next
  case (Inr f)
  show ?thesis
  proof (cases "read_movies int_of f")
    case (Inl e)
    with assms Inr show ?thesis by (simp add: load_movies_def)
  next
    case r: (Inr ms)
    let ?s = "self\<lparr>priv_movies := Some ms\<rparr>"
    from assms Inr r have b: "build_index ?s = (None, s')"
      by (simp add: load_movies_def)
    then have "fst (build_index ?s) = None" and s': "s' = snd (build_index ?s)"
      by simp_all
    then have "\<forall>m\<in>set ms. director m \<noteq> None"
      by (simp add: build_index_ok)
    moreover have "priv_movies s' = Some ms" "priv_last_modified s' = priv_last_modified self"
      by (simp_all add: s' build_index_frame)
    ultimately show ?thesis using Inr r by simp
  qed
qed

lemma load_movies_success:
  assumes "opened src = Inr f" and "read_movies int_of f = Inr ms"
    and "\<forall>m\<in>set ms. director m \<noteq> None"
  shows "fst (load_movies int_of src self) = None"
    and "priv_movies (snd (load_movies int_of src self)) = Some ms"
    and "priv_last_modified (snd (load_movies int_of src self)) = priv_last_modified self"
  using assms by (simp_all add: load_movies_def build_index_ok build_index_frame)


lemma fold_update_other:
  "k \<notin> fst ` set zs \<Longrightarrow>
     map_of (fold (\<lambda>(k, v). AList.update k (Some v)) zs d) k = map_of d k"
  by (induction zs arbitrary: d) (auto simp: update_conv')

lemma fold_update_distinct:
  "distinct (map fst zs) \<Longrightarrow> (k, v) \<in> set zs \<Longrightarrow>
     map_of (fold (\<lambda>(k, v). AList.update k (Some v)) zs d) k = Some (Some v)"
proof (induction zs arbitrary: d)
  case Nil
  then show ?case by simp
next
  case (Cons z zs)
  show ?case
  proof (cases "z = (k, v)")
    case True
    with Cons.prems have "k \<notin> fst ` set zs" by auto
    then show ?thesis
      by (simp add: True fold_update_other update_conv')
  next
    case False
    with Cons show ?thesis by auto
  qed
qed

lemma DictReader_row_cell:
  assumes "distinct fieldnames" and "i < length fieldnames" and "length fieldnames \<le> length row"
  shows "getitem (DictReader_row fieldnames row) (fieldnames ! i) = Inr (Some (row ! i))"
proof -
  have "distinct (map fst (zip fieldnames row))"
    using assms by (simp add: map_fst_zip_take)
  moreover have "(fieldnames ! i, row ! i) \<in> set (zip fieldnames row)"
    using assms by (auto simp: set_zip)
  ultimately have "map_of (fold (\<lambda>(k, v). AList.update k (Some v)) (zip fieldnames row) [])
      (fieldnames ! i) = Some (Some (row ! i))"
    by (rule fold_update_distinct)
  with assms(3) show ?thesis
    by (simp add: DictReader_row_def getitem_def Let_def)
qed

lemma read_rows_well_formed:
  assumes "distinct header"
    and "it < length header" "header ! it = ''title''"
    and "iy < length header" "header ! iy = ''release_year''"
    and "idr < length header" "header ! idr = ''director''"
    and "\<forall>row\<in>set rows. length header \<le> length row \<and> int_of (row ! iy) = Some (year row)"
  shows "read_rows int_of header rows None acc =
           Inr (acc @ map (\<lambda>row. \<lparr>title = Some (row ! it), release_year = year row,
                                   director = Some (row ! idr)\<rparr>) rows)"
  using assms(8)
proof (induction rows arbitrary: acc)
  case Nil
  then show ?case by simp
next
  case (Cons row rows)
  from Cons.prems have len: "length header \<le> length row" and y: "int_of (row ! iy) = Some (year row)"
    by simp_all
  from len assms(2) have ne: "row \<noteq> []" by auto
  have t: "getitem (DictReader_row header row) ''title'' = Inr (Some (row ! it))"
    using DictReader_row_cell [OF assms(1,2) len] by (simp add: assms(3))
  have r: "getitem (DictReader_row header row) ''release_year'' = Inr (Some (row ! iy))"
    using DictReader_row_cell [OF assms(1,4) len] by (simp add: assms(5))
  have d: "getitem (DictReader_row header row) ''director'' = Inr (Some (row ! idr))"
    using DictReader_row_cell [OF assms(1,6) len] by (simp add: assms(7))
  have m: "row_movie int_of (DictReader_row header row) =
             Inr \<lparr>title = Some (row ! it), release_year = year row, director = Some (row ! idr)\<rparr>"
    by (simp add: row_movie_def t r d py_int_def y)
  from Cons.prems have "\<forall>row\<in>set rows. length header \<le> length row \<and> int_of (row ! iy) = Some (year row)"
    by simp
  from Cons.IH [OF this] show ?case
    by (simp add: ne m)
qed

text \<open>
  C5: a file whose header names the three columns once each, and whose rows all have a
  cell for every column and a year that \<^verbatim>\<open>int\<close> accepts, loads without an exception
  into one record per row, in file order, each holding the title and director cells of
  its row and the parsed year.
\<close>

theorem load_well_formed_rows:
  assumes "distinct header"
    and "it < length header" and "header ! it = ''title''"
    and "iy < length header" and "header ! iy = ''release_year''"
    and "idr < length header" and "header ! idr = ''director''"
    and "opened src = Inr (header # rows, None)"
    and "\<forall>row\<in>set rows. length header \<le> length row \<and> int_of (row ! iy) = Some (year row)"
  shows "fst (load_movies int_of src self) = None
    \<and> priv_movies (snd (load_movies int_of src self)) =
        Some (map (\<lambda>row. \<lparr>title = Some (row ! it), release_year = year row,
                             director = Some (row ! idr)\<rparr>) rows)
    \<and> (\<exists>ms. priv_movies (snd (load_movies int_of src self)) = Some ms \<and> length ms = length rows)"
proof -
  let ?ms = "map (\<lambda>row. \<lparr>title = Some (row ! it), release_year = year row,
                             director = Some (row ! idr)\<rparr>) rows"
  have r: "read_movies int_of (header # rows, None) = Inr ?ms"
    using read_rows_well_formed [OF assms(1-7) assms(9), of "[]"] by (simp add: read_movies_def)
  have d: "\<forall>m\<in>set ?ms. director m \<noteq> None"
    by simp
  have "fst (load_movies int_of src self) = None"
    and "priv_movies (snd (load_movies int_of src self)) = Some ?ms"
    using assms(8) r d by (simp_all add: load_movies_def build_index_ok build_index_frame)
  then show ?thesis by simp
qed

theorem load_well_formed_rows_witness:
  "opened two_movies = Inr ([''title'', ''release_year'', ''director'']
                              # [[''Inception'', ''2010'', ''Nolan''],
                                 [''Interstellar'', ''2014'', ''Nolan'']], None)
   \<and> fst (load_movies int_of_decimal two_movies MovieDataSource_init) = None
   \<and> priv_movies (snd (load_movies int_of_decimal two_movies MovieDataSource_init))
       = Some [Inception, Interstellar]"
proof -
  let ?header = "[''title'', ''release_year'', ''director'']"
  let ?rows = "[[''Inception'', ''2010'', ''Nolan''], [''Interstellar'', ''2014'', ''Nolan'']]"
  let ?year = "\<lambda>row. if row ! 0 = ''Inception'' then 2010 else (2014 :: int)"
  have h: "distinct ?header"
    by simp
  have o: "opened two_movies = Inr (?header # ?rows, None)"
    by (simp add: two_movies_def)
  have a: "int_of_decimal ''2010'' = Some 2010" and b: "int_of_decimal ''2014'' = Some 2014"
    by code_simp+
  have w: "\<forall>row\<in>set ?rows. length ?header \<le> length row \<and> int_of_decimal (row ! 1) = Some (?year row)"
    by (simp add: a b)
  show ?thesis
    using load_well_formed_rows [where header = ?header and it = 0 and iy = 1 and idr = 2
        and rows = ?rows and year = ?year and int_of = int_of_decimal and src = two_movies
        and self = MovieDataSource_init, OF h _ _ _ _ _ _ o w] o
    by (simp add: Inception_def Interstellar_def)
qed

section \<open>The freshness check\<close>

lemma loaded_value: "loaded = \<lparr>priv_movies = Some [Inception, Interstellar], priv_last_modified = 100,
   priv_index = [(''year'', [(''2010'', [Inception]), (''2014'', [Interstellar])]),
                 (''director'', [(''nolan'', [Inception, Interstellar])])]\<rparr>"
  by code_simp

text \<open>
  C1: when the modification time can be read, \<^verbatim>\<open>movies\<close> reloads exactly when there is no
  snapshot yet or the time is strictly newer than the one recorded; a reload of a
  readable file returns its content and records the time; otherwise the snapshot is
  returned and the object is untouched; and a call that returned, repeated on the same
  file, returns the same snapshot and changes nothing.
\<close>

theorem movies_reloads_only_when_stale:
  assumes "getmtime src = Inr t"
  shows
   "((priv_movies self = None \<or> priv_last_modified self < t) \<longrightarrow>
        MovieDataSource_movies int_of src self =
          (case load_movies int_of src self of
             (Some e, s') \<Rightarrow> (Inl e, s')
           | (None, s') \<Rightarrow> (Inr (priv_movies s'), s'\<lparr>priv_last_modified := t\<rparr>)))
    \<and> ((priv_movies self = None \<or> priv_last_modified self < t) \<longrightarrow>
        opened src = Inr f \<longrightarrow> read_movies int_of f = Inr ms \<longrightarrow>
        (\<forall>m\<in>set ms. director m \<noteq> None) \<longrightarrow>
          fst (MovieDataSource_movies int_of src self) = Inr (Some ms)
          \<and> priv_movies (snd (MovieDataSource_movies int_of src self)) = Some ms
          \<and> priv_last_modified (snd (MovieDataSource_movies int_of src self)) = t)
    \<and> (\<not> (priv_movies self = None \<or> priv_last_modified self < t) \<longrightarrow>
        MovieDataSource_movies int_of src self = (Inr (priv_movies self), self))
    \<and> (MovieDataSource_movies int_of src self = (Inr r, self') \<longrightarrow>
        MovieDataSource_movies int_of src self' = (Inr r, self'))"
proof (intro conjI impI)
  assume stale: "priv_movies self = None \<or> priv_last_modified self < t"
  show "MovieDataSource_movies int_of src self =
          (case load_movies int_of src self of
             (Some e, s') \<Rightarrow> (Inl e, s')
           | (None, s') \<Rightarrow> (Inr (priv_movies s'), s'\<lparr>priv_last_modified := t\<rparr>))"
    using assms stale by (auto simp: MovieDataSource_movies_def)
  then have m: "MovieDataSource_movies int_of src self =
          (case load_movies int_of src self of
             (Some e, s') \<Rightarrow> (Inl e, s')
           | (None, s') \<Rightarrow> (Inr (priv_movies s'), s'\<lparr>priv_last_modified := t\<rparr>))" .
  assume f: "opened src = Inr f" "read_movies int_of f = Inr ms" "\<forall>m\<in>set ms. director m \<noteq> None"
  note ok = load_movies_success [OF f, of self]
  obtain e s' where l: "load_movies int_of src self = (e, s')"
    by (cases "load_movies int_of src self")
  with ok have e: "e = None" and s': "priv_movies s' = Some ms"
    by simp_all
  show "fst (MovieDataSource_movies int_of src self) = Inr (Some ms)"
    by (simp add: m l e s')
  show "priv_movies (snd (MovieDataSource_movies int_of src self)) = Some ms"
    by (simp add: m l e s')
  show "priv_last_modified (snd (MovieDataSource_movies int_of src self)) = t"
    by (simp add: m l e)
next
  assume "\<not> (priv_movies self = None \<or> priv_last_modified self < t)"
  then show "MovieDataSource_movies int_of src self = (Inr (priv_movies self), self)"
    using assms by (auto simp: MovieDataSource_movies_def)
next
  assume a: "MovieDataSource_movies int_of src self = (Inr r, self')"
  show "MovieDataSource_movies int_of src self' = (Inr r, self')"
  proof (cases "priv_movies self = None \<or> priv_last_modified self < t")
    case False
    with a assms have "self' = self" "r = priv_movies self"
      by (auto simp: MovieDataSource_movies_def)
    with False assms show ?thesis
      by (auto simp: MovieDataSource_movies_def)
  next
    case True
    obtain e s' where l: "load_movies int_of src self = (e, s')"
      by (cases "load_movies int_of src self")
    from a assms True l have e: "e = None" and r: "r = priv_movies s'"
      and self': "self' = s'\<lparr>priv_last_modified := t\<rparr>"
      by (auto simp: MovieDataSource_movies_def split: option.splits)
    from load_movies_ok [OF l [unfolded e]] obtain ms where "priv_movies s' = Some ms"
      by blast
    with assms show ?thesis
      by (simp add: MovieDataSource_movies_def self' r)
  qed
qed

theorem movies_reloads_only_when_stale_witness:
  "getmtime two_movies = Inr 100 \<and> getmtime one_movie = Inr 200
   \<and> fst (MovieDataSource_movies int_of_decimal two_movies MovieDataSource_init)
       = Inr (Some [Inception, Interstellar])
   \<and> MovieDataSource_movies int_of_decimal two_movies loaded
       = (Inr (Some [Inception, Interstellar]), loaded)
   \<and> fst (MovieDataSource_movies int_of_decimal one_movie loaded) = Inr (Some [Inception])"
proof -
  let ?f = "([[''title'', ''release_year'', ''director''], [''Inception'', ''2010'', ''Nolan''],
              [''Interstellar'', ''2014'', ''Nolan'']], None :: error option)"
  let ?g = "([[''title'', ''release_year'', ''director''], [''Inception'', ''2010'', ''Nolan'']],
             None :: error option)"
  have g: "getmtime two_movies = Inr 100" and g': "getmtime one_movie = Inr 200"
    by (simp_all add: two_movies_def one_movie_def)
  have o: "opened two_movies = Inr ?f" and o': "opened one_movie = Inr ?g"
    by (simp_all add: two_movies_def one_movie_def)
  have r: "read_movies int_of_decimal ?f = Inr [Inception, Interstellar]"
    and r': "read_movies int_of_decimal ?g = Inr [Inception]"
    by code_simp+
  have d: "\<forall>m\<in>set [Inception, Interstellar]. director m \<noteq> None"
    and d': "\<forall>m\<in>set [Inception]. director m \<noteq> None"
    by (simp_all add: Inception_def Interstellar_def)
  have n: "priv_movies MovieDataSource_init = None"
    by (simp add: MovieDataSource_init_def)
  have pm: "priv_movies loaded = Some [Inception, Interstellar]"
    and lm: "priv_last_modified loaded = 100"
    by (simp_all add: loaded_value)
  note first = movies_reloads_only_when_stale
    [OF g, where self = MovieDataSource_init and int_of = int_of_decimal and f = ?f
       and ms = "[Inception, Interstellar]"]
  note again = movies_reloads_only_when_stale
    [OF g, where self = loaded and int_of = int_of_decimal]
  note newer = movies_reloads_only_when_stale
    [OF g', where self = loaded and int_of = int_of_decimal and f = ?g and ms = "[Inception]"]
  have 1: "fst (MovieDataSource_movies int_of_decimal two_movies MovieDataSource_init)
             = Inr (Some [Inception, Interstellar])"
    using first n o r d by blast
  have 2: "MovieDataSource_movies int_of_decimal two_movies loaded
             = (Inr (Some [Inception, Interstellar]), loaded)"
    using again pm lm by simp
  have st: "priv_movies loaded = None \<or> priv_last_modified loaded < 200"
    by (simp add: lm)
  have 3: "fst (MovieDataSource_movies int_of_decimal one_movie loaded) = Inr (Some [Inception])"
    using newer st o' r' d' by blast
  show ?thesis
    using g g' 1 2 3 by simp
qed

section \<open>A failing reload\<close>

text \<open>
  An exception raised before the parsed list is stored leaves the object as it was:
  the modification time cannot be read, the file cannot be opened, or a row cannot be
  turned into a record.
\<close>

lemma movies_error_before_store:
  "getmtime src = Inl e \<Longrightarrow> MovieDataSource_movies int_of src self = (Inl e, self)"
  "getmtime src = Inr t \<Longrightarrow> priv_movies self = None \<or> priv_last_modified self < t \<Longrightarrow>
     opened src = Inl e \<Longrightarrow> MovieDataSource_movies int_of src self = (Inl e, self)"
  "getmtime src = Inr t \<Longrightarrow> priv_movies self = None \<or> priv_last_modified self < t \<Longrightarrow>
     opened src = Inr f \<Longrightarrow> read_movies int_of f = Inl e \<Longrightarrow>
     MovieDataSource_movies int_of src self = (Inl e, self)"
  by (auto simp: MovieDataSource_movies_def load_movies_def)

text \<open>
  C2 at a row that lacks its director cell: \<^verbatim>\<open>DictReader\<close> binds \<open>director\<close> to \<^verbatim>\<open>None\<close>,
  the record is built, the new list is stored in \<^verbatim>\<open>_movies\<close>, and \<^verbatim>\<open>_build_index\<close> raises
  \<^verbatim>\<open>AttributeError\<close> after it has cleared the index and rebuilt part of it. The call
  fails, the recorded modification time stays, but the snapshot and the index are no
  longer the previous ones.
\<close>

theorem failed_reload_replaces_snapshot:
  "fst (MovieDataSource_movies int_of_decimal short_row loaded) = Inl AttributeError
   \<and> priv_movies loaded = Some [Inception, Interstellar]
   \<and> snd (MovieDataSource_movies int_of_decimal short_row loaded)
       = \<lparr>priv_movies = Some [Inception, Interstellar\<lparr>director := None\<rparr>],
          priv_last_modified = 100,
          priv_index = [(''year'', [(''2010'', [Inception]),
                                    (''2014'', [Interstellar\<lparr>director := None\<rparr>])]),
                        (''director'', [(''nolan'', [Inception])])]\<rparr>"
  by code_simp


section \<open>The title and director strategies\<close>





















section \<open>The index\<close>

lemma index_get_append:
  "index_get (index_append f k m idx) f' k' =
     index_get idx f' k' @ (if f' = f \<and> k' = k then [m] else [])"
  by (simp add: index_get_def index_append_def Let_def update_conv' split: option.splits)

lemma index_get_fold:
  "index_get (fold (\<lambda>m. index_append f (key m) m) ms idx) f' k =
     index_get idx f' k @ (if f' = f then filter (\<lambda>m. key m = k) ms else [])"
  by (induction ms arbitrary: idx) (auto simp: index_get_append)

lemma index_get_directors:
  "fst (index_directors ms idx) = None \<Longrightarrow>
     index_get (snd (index_directors ms idx)) f' k =
       index_get idx f' k @
       (if f' = ''director'' then filter (\<lambda>m. map_option lower (director m) = Some k) ms else [])"
proof (induction ms arbitrary: idx)
  case Nil
  then show ?case by simp
next
  case (Cons m ms)
  then show ?case
    by (cases "director m") (auto simp: index_get_append)
qed

lemma dec_nat_value: "foldl (\<lambda>a c. 10 * a + (of_char c - 48)) 0 (dec_nat n) = n"
proof (induction n rule: dec_nat.induct)
  case (1 n)
  show ?case
  proof (cases "n < 10")
    case True
    then show ?thesis by (simp add: dec_nat.simps [of n])
  next
    case False
    have "n mod 10 < 10" by simp
    then have "(48 + n mod 10) mod 256 = 48 + n mod 10" by simp
    with False 1 show ?thesis
      by (simp add: dec_nat.simps [of n])
  qed
qed

lemma dec_nat_inj: "dec_nat m = dec_nat n \<Longrightarrow> m = n"
  by (metis dec_nat_value)

lemma dec_nat_no_minus: "CHR ''-'' \<notin> set (dec_nat n)"
proof (induction n rule: dec_nat.induct)
  case (1 n)
  have d: "char_of (48 + k) \<noteq> CHR ''-''" if "k < 10" for k :: nat
  proof
    assume "char_of (48 + k) = CHR ''-''"
    then have "(of_char (char_of (48 + k)) :: nat) = of_char CHR ''-''" by simp
    with that show False by simp
  qed
  show ?case
  proof (cases "n < 10")
    case True
    then show ?thesis using d [of n] by (simp add: dec_nat.simps [of n])
  next
    case False
    with 1 show ?thesis using d [of "n mod 10"] by (simp add: dec_nat.simps [of n])
  qed
qed

lemma py_str_inj: "py_str i = py_str j \<longleftrightarrow> i = j"
proof
  assume e: "py_str i = py_str j"
  have neq: "CHR ''-'' # s \<noteq> dec_nat n" for s n
    using dec_nat_no_minus [of n] by (metis list.set_intros(1))
  show "i = j"
  proof (cases "i < 0")
    case i: True
    show ?thesis
    proof (cases "j < 0")
      case True
      with i e have "nat (- i) = nat (- j)" by (auto simp: py_str_def dest: dec_nat_inj)
      with i True show ?thesis by simp
    next
      case False
      with i e neq show ?thesis by (simp add: py_str_def)
    qed
  next
    case i: False
    show ?thesis
    proof (cases "j < 0")
      case True
      with i e neq [of "dec_nat (nat (- j))" "nat i"] show ?thesis by (simp add: py_str_def)
    next
      case False
      with i e have "nat i = nat j" by (auto simp: py_str_def dest: dec_nat_inj)
      with i False show ?thesis by simp
    qed
  qed
qed simp

lemma build_index_get:
  assumes "priv_movies self = Some ms" and "fst (build_index self) = None"
  shows "index_get (priv_index (snd (build_index self))) ''year'' k
           = filter (\<lambda>m. py_str (release_year m) = k) ms"
    and "index_get (priv_index (snd (build_index self))) ''director'' k
           = filter (\<lambda>m. map_option lower (director m) = Some k) ms"
  using assms
  by (simp_all add: build_index_def Let_def index_get_directors index_get_fold)
     (simp_all add: index_get_def)

lemma movies_ignores_index:
  "fst (MovieDataSource_movies int_of src (self\<lparr>priv_index := idx\<rparr>))
     = fst (MovieDataSource_movies int_of src self)"
  by (auto simp: MovieDataSource_movies_def load_movies_def build_index_def Let_def
      split: sum.splits option.splits prod.splits)


lemma build_index_depends_on_movies:
  assumes "priv_movies a = priv_movies b"
  shows "fst (build_index a) = fst (build_index b)"
    and "priv_index (snd (build_index a)) = priv_index (snd (build_index b))"
  using assms by (simp_all add: build_index_def Let_def split: option.splits)

lemma load_movies_index_rebuilt:
  assumes "load_movies int_of src a = (None, a')" and "load_movies int_of src b = (None, b')"
  shows "priv_index a' = priv_index b'"
proof (cases "opened src")
  case (Inl e)
  with assms show ?thesis by (simp add: load_movies_def)
next
  case (Inr f)
  show ?thesis
  proof (cases "read_movies int_of f")
    case (Inl e)
    with assms Inr show ?thesis by (simp add: load_movies_def)
  next
    case r: (Inr ms)
    from assms Inr r have "a' = snd (build_index (a\<lparr>priv_movies := Some ms\<rparr>))"
      and "b' = snd (build_index (b\<lparr>priv_movies := Some ms\<rparr>))"
      by (simp_all add: load_movies_def)
    then show ?thesis
      using build_index_depends_on_movies(2)
        [of "a\<lparr>priv_movies := Some ms\<rparr>" "b\<lparr>priv_movies := Some ms\<rparr>"]
      by simp
  qed
qed

lemma load_movies_index:
  assumes "load_movies int_of src self = (None, s')" and "priv_movies s' = Some ms"
  shows "index_get (priv_index s') ''year'' k = filter (\<lambda>m. py_str (release_year m) = k) ms"
    and "index_get (priv_index s') ''director'' k
           = filter (\<lambda>m. map_option lower (director m) = Some k) ms"
proof -
  from assms(1) obtain f ms' where f: "opened src = Inr f" "read_movies int_of f = Inr ms'"
    and s: "priv_movies s' = Some ms'"
    using load_movies_ok by blast
  from s assms(2) have [simp]: "ms' = ms" by simp
  let ?s = "self\<lparr>priv_movies := Some ms\<rparr>"
  from assms(1) f have b: "build_index ?s = (None, s')"
    by (simp add: load_movies_def)
  then have ok: "fst (build_index ?s) = None" and s': "s' = snd (build_index ?s)"
    by simp_all
  have pm: "priv_movies ?s = Some ms" by simp
  show "index_get (priv_index s') ''year'' k = filter (\<lambda>m. py_str (release_year m) = k) ms"
    unfolding s' by (rule build_index_get(1) [OF pm ok])
  show "index_get (priv_index s') ''director'' k
           = filter (\<lambda>m. map_option lower (director m) = Some k) ms"
    unfolding s' by (rule build_index_get(2) [OF pm ok])
qed

lemma search_ignores_index:
  "fst (search int_of src (self\<lparr>data_source := (data_source self)\<lparr>priv_index := idx\<rparr>\<rparr>) criteria query)
     = fst (search int_of src self criteria query)"
  by (simp add: search_def search_body_def Let_def movies_ignores_index
      split: option.splits sum.splits prod.splits)

text \<open>
  C8, as the code has it: a reload that succeeds leaves an index built from the new
  snapshot alone, whatever the index was before, in which the bucket of a year's
  decimal string holds the records of that year and the bucket of a lower-cased
  director the records of that director, both in snapshot order. The data source has no
  lookup operation, and the index is never read: the result of a search is the same
  whatever the index holds.
\<close>

theorem reload_rebuilds_index:
  assumes "load_movies int_of src self = (None, s')" and "priv_movies s' = Some ms"
  shows "index_get (priv_index s') ''year'' (py_str y) = filter (\<lambda>m. release_year m = y) ms
    \<and> index_get (priv_index s') ''year'' k = filter (\<lambda>m. py_str (release_year m) = k) ms
    \<and> index_get (priv_index s') ''director'' k
        = filter (\<lambda>m. map_option lower (director m) = Some k) ms
    \<and> (load_movies int_of src other = (None, other') \<longrightarrow> priv_index other' = priv_index s')
    \<and> fst (search int_of src' (manager\<lparr>data_source := (data_source manager)\<lparr>priv_index := idx\<rparr>\<rparr>)
              criteria query)
        = fst (search int_of src' manager criteria query)"
proof (intro conjI impI)
  show "index_get (priv_index s') ''year'' (py_str y) = filter (\<lambda>m. release_year m = y) ms"
    by (simp add: load_movies_index(1) [OF assms] py_str_inj)
  show "index_get (priv_index s') ''year'' k = filter (\<lambda>m. py_str (release_year m) = k) ms"
    by (rule load_movies_index(1) [OF assms])
  show "index_get (priv_index s') ''director'' k
        = filter (\<lambda>m. map_option lower (director m) = Some k) ms"
    by (rule load_movies_index(2) [OF assms])
  show "priv_index other' = priv_index s'" if "load_movies int_of src other = (None, other')"
    using that assms(1) by (rule load_movies_index_rebuilt)
  show "fst (search int_of src' (manager\<lparr>data_source := (data_source manager)\<lparr>priv_index := idx\<rparr>\<rparr>)
              criteria query)
        = fst (search int_of src' manager criteria query)"
    by (rule search_ignores_index)
qed

lemma load_two_movies:
  "load_movies int_of_decimal two_movies MovieDataSource_init = (None, loaded\<lparr>priv_last_modified := 0\<rparr>)"
  by code_simp

lemma load_two_movies_other:
  "load_movies int_of_decimal two_movies (loaded\<lparr>priv_index := []\<rparr>) = (None, loaded)"
  by code_simp

theorem reload_rebuilds_index_witness:
  "load_movies int_of_decimal two_movies MovieDataSource_init
     = (None, loaded\<lparr>priv_last_modified := 0\<rparr>)
   \<and> priv_movies loaded = Some [Inception, Interstellar]
   \<and> index_get (priv_index loaded) ''year'' ''2010'' = [Inception]
   \<and> index_get (priv_index loaded) ''year'' ''2014'' = [Interstellar]
   \<and> index_get (priv_index loaded) ''director'' ''nolan'' = [Inception, Interstellar]
   \<and> load_movies int_of_decimal two_movies (loaded\<lparr>priv_index := []\<rparr>) = (None, loaded)"
proof -
  have pm: "priv_movies (loaded\<lparr>priv_last_modified := 0\<rparr>) = Some [Inception, Interstellar]"
    by (simp add: loaded_value)
  have s: "py_str 2010 = ''2010''" "py_str 2014 = ''2014''" "lower ''Nolan'' = ''nolan''"
    by code_simp+
  note a = reload_rebuilds_index [OF load_two_movies pm, where y = 2010 and k = "''nolan''"]
  note b = reload_rebuilds_index [OF load_two_movies pm, where y = 2014]
  have 1: "index_get (priv_index loaded) ''year'' ''2010'' = [Inception]"
    using a by (simp add: s Inception_def Interstellar_def)
  have 2: "index_get (priv_index loaded) ''year'' ''2014'' = [Interstellar]"
    using b by (simp add: s Inception_def Interstellar_def)
  have 3: "index_get (priv_index loaded) ''director'' ''nolan'' = [Inception, Interstellar]"
    using a by (simp add: s Inception_def Interstellar_def)
  show ?thesis
    using load_two_movies load_two_movies_other pm 1 2 3 by simp
qed

text \<open>
  C8, as stated, fails: there is no \<^verbatim>\<open>lookupByYear\<close> or \<^verbatim>\<open>lookupByDirector\<close>. A lookup by
  year is a search, which is answered with the index emptied, and a lookup by director
  matches by substring, where the index has no bucket.
\<close>

theorem year_and_director_lookups_bypass_index:
  "fst (search int_of_decimal two_movies
          \<lparr>data_source = loaded\<lparr>priv_index := []\<rparr>, search_cache = []\<rparr> YEAR (PInt 2010))
     = Inr [Inception]
   \<and> fst (search int_of_decimal two_movies
          \<lparr>data_source = loaded, search_cache = []\<rparr> DIRECTOR (PStr ''nol''))
     = Inr [Inception, Interstellar]
   \<and> index_get (priv_index loaded) ''director'' ''nol'' = []"
  by code_simp


end
